theory Spec2Isabelle
  imports Complex_Main
begin

section \<open>Font Overlay Comparator: data model\<close>

text \<open>
  The component \<^verbatim>\<open>FontOverlayComparator\<close> (src/FontOverlayComparator.tsx) is embedded
  as pure functions over an explicit state record. Conventions of the embedding:
  \<^item> a JavaScript string is the list of the code points its iterator yields
    (\<^verbatim>\<open>for (const ch of s)\<close>, \<^verbatim>\<open>Array.from(s)\<close>); the two regular expressions of the
    source only distinguish ASCII characters, so they read the same on code points as on
    UTF-16 code units;
  \<^item> a JavaScript number is a \<open>real\<close> (exact arithmetic; the drag counter, which only
    ever moves by one, is an \<open>int\<close>);
  \<^item> \<^verbatim>\<open>null\<close> is \<open>None\<close>;
  \<^item> what the browser decides (text measurement, font decoding, whether a 2D context
    exists, the pixel ratio) is a field of the record \<open>platform\<close>; what it reads from the
    clock and the random generator is an explicit argument of the handler that reads it;
  \<^item> an event handler runs from its first to its last statement as one transition.
\<close>

type_synonym jsstring = "nat list"

definition ascii :: "string \<Rightarrow> jsstring" where
  "ascii s = map of_char s"

datatype OverlayMode = RedCyan | Difference

datatype GridPreset = BasicLatin | Caps | Lower | Digits | Punct | Custom

datatype SlotLabel = LabelA | LabelB

record LoadedFont =
  name :: jsstring
  displayName :: jsstring
  face :: nat

record Msg =
  id' :: real
  msg :: jsstring

record File =
  fname :: jsstring
  bytes :: "nat list"

record state =
  fontA :: "LoadedFont option"
  fontB :: "LoadedFont option"
  text' :: jsstring
  fontSize :: real
  letterSpacing :: real
  dx :: real
  dy :: real
  overlayMode :: OverlayMode
  showChecker :: bool
  stroke :: bool
  strokeWidth :: real
  gridOpen :: bool
  isDragging :: bool
  dragCounter :: int
  gridCharsPreset :: GridPreset
  customChars :: jsstring
  messages :: "Msg list"

text \<open>The values of the \<^verbatim>\<open>useState\<close> and \<^verbatim>\<open>useRef\<close> initialisers (lines 29 to 45).\<close>

definition initial :: state where
  "initial = \<lparr> fontA = None, fontB = None,
     text' = ascii ''Hamburgefonstiv 0123456789 ABCD abcd'',
     fontSize = 120, letterSpacing = 0, dx = 0, dy = 0,
     overlayMode = RedCyan, showChecker = True, stroke = False, strokeWidth = 1,
     gridOpen = False, isDragging = False, dragCounter = 0,
     gridCharsPreset = BasicLatin, customChars = [], messages = [] \<rparr>"

section \<open>Diagnostic messages\<close>

text \<open>
  \<^verbatim>\<open>pushMessage\<close> (line 97): the new entry goes in front and \<^verbatim>\<open>slice(0, 5)\<close> keeps the
  first five. The argument \<open>i\<close> is the value of \<^verbatim>\<open>Date.now() + Math.random()\<close>.
\<close>

definition pushMessage :: "real \<Rightarrow> jsstring \<Rightarrow> Msg list \<Rightarrow> Msg list" where
  "pushMessage i m arr = take 5 (\<lparr> id' = i, msg = m \<rparr> # arr)"

text \<open>A sequence of pushes, oldest first.\<close>

fun pushMessages :: "(real \<times> jsstring) list \<Rightarrow> Msg list \<Rightarrow> Msg list" where
  "pushMessages [] arr = arr"
| "pushMessages ((i, m) # ps) arr = pushMessages ps (pushMessage i m arr)"

section \<open>The platform\<close>

text \<open>
  What the browser decides. \<open>measureText px family s\<close> is the \<^verbatim>\<open>width\<close> of
  \<^verbatim>\<open>ctx.measureText(s)\<close> when \<^verbatim>\<open>ctx.font\<close> selects \<open>family\<close> at \<open>px\<close> pixels.
  \<open>loadFace u f\<close> is the outcome of reading the file and of \<^verbatim>\<open>new FontFace(u, ab).load()\<close>:
  \<open>Inr\<close> the loaded face, or \<open>Inl\<close> the text of the exception that the \<^verbatim>\<open>catch\<close> sees.
  The three flags say whether \<^verbatim>\<open>canvasRef.current\<close>, its \<^verbatim>\<open>getContext("2d")\<close> and the 2D
  context of a fresh scratch canvas are non-null.
\<close>

record platform =
  measureText :: "real \<Rightarrow> jsstring \<Rightarrow> jsstring \<Rightarrow> real"
  loadFace :: "jsstring \<Rightarrow> File \<Rightarrow> jsstring + nat"
  devicePixelRatio :: real
  canvasMounted :: bool
  context2d :: bool
  scratchContext2d :: bool

text \<open>
  What one call of \<^verbatim>\<open>loadFontFromFile\<close> or one handler's own \<^verbatim>\<open>pushMessage\<close> reads from
  the environment: \<open>now\<close> is \<^verbatim>\<open>Date.now()\<close> at line 85 (milliseconds, a non-negative
  integer), \<open>msgId\<close> is \<^verbatim>\<open>Date.now() + Math.random()\<close> at line 98.
\<close>

record reading =
  now :: nat
  msgId :: real

section \<open>Font Loader\<close>

text \<open>\<^verbatim>\<open>\w\<close>: the characters \<^verbatim>\<open>[A-Za-z0-9_]\<close>.\<close>

definition wordChar :: "nat \<Rightarrow> bool" where
  "wordChar c = ((48 \<le> c \<and> c \<le> 57) \<or> (65 \<le> c \<and> c \<le> 90) \<or> (97 \<le> c \<and> c \<le> 122) \<or> c = 95)"

text \<open>\<^verbatim>\<open>s.replace(/\W+/g, "_")\<close>: every maximal run of non-word characters becomes one underscore.\<close>

function sanitize :: "jsstring \<Rightarrow> jsstring" where
  "sanitize [] = []"
| "sanitize (c # cs) =
     (if wordChar c then c # sanitize cs
      else 95 # sanitize (dropWhile (\<lambda>d. \<not> wordChar d) cs))"
  by pat_completeness auto
termination
  by (relation "measure length") (auto simp: le_imp_less_Suc length_dropWhile_le)

text \<open>The decimal digits of a non-negative integer, as a template literal prints it.\<close>

fun decimal :: "nat \<Rightarrow> jsstring" where
  "decimal n = (if n < 10 then [48 + n] else decimal (n div 10) @ [48 + n mod 10])"

declare decimal.simps [simp del]

fun labelText :: "SlotLabel \<Rightarrow> jsstring" where
  "labelText LabelA = [65]"
| "labelText LabelB = [66]"

text \<open>Line 85: \<^verbatim>\<open>`${label}_${file.name.replace(/\W+/g, "_")}_${Date.now()}`\<close>.\<close>

definition uniqueName :: "SlotLabel \<Rightarrow> jsstring \<Rightarrow> nat \<Rightarrow> jsstring" where
  "uniqueName label fileName t = labelText label @ [95] @ sanitize fileName @ [95] @ decimal t"

text \<open>The Russian literal of line 92 up to the file name, as code points.\<close>

definition loadFailedPrefix :: jsstring where
  "loadFailedPrefix = [1053, 1077, 32, 1091, 1076, 1072, 1083, 1086, 1089, 1100, 32, 1079,
     1072, 1075, 1088, 1091, 1079, 1080, 1090, 1100, 32, 1096, 1088, 1080, 1092, 1090, 32]"

text \<open>
  \<^verbatim>\<open>loadFontFromFile\<close> (line 82). The message log is the part of the state it can change;
  it returns the font, or \<open>None\<close> after pushing the failure message. Adding the face to
  \<^verbatim>\<open>document.fonts\<close> stays inside the platform.
\<close>

definition loadFontFromFile ::
  "platform \<Rightarrow> reading \<Rightarrow> File \<Rightarrow> SlotLabel \<Rightarrow> Msg list \<Rightarrow> LoadedFont option \<times> Msg list" where
  "loadFontFromFile P r file label msgs =
     (let uniq = uniqueName label (fname file) (now r) in
      case loadFace P uniq file of
        Inr loaded \<Rightarrow> (Some \<lparr> name = uniq, displayName = fname file, face = loaded \<rparr>, msgs)
      | Inl errMsg \<Rightarrow>
          (None, pushMessage (msgId r) (loadFailedPrefix @ fname file @ ascii '': '' @ errMsg) msgs))"

section \<open>Metrics Engine\<close>

text \<open>
  The calls a 2D context and its canvas receive, in order. \<open>SetFont px family\<close> is an
  assignment to \<^verbatim>\<open>ctx.font\<close>.
\<close>

datatype composite = SourceOver | DifferenceOp

datatype canvas_op =
    SetTransform real
  | ClearRect real real real real
  | FillRect real real real real
  | SetFillStyle jsstring
  | SetStrokeStyle jsstring
  | SetLineWidth real
  | SetFont real jsstring
  | SetTextBaseline jsstring
  | SetFontKerning jsstring
  | FillText jsstring real real
  | StrokeText jsstring real real
  | MeasureText jsstring
  | SetComposite composite
  | BeginPath
  | MoveTo real real
  | LineTo real real
  | Stroke

text \<open>
  The loop of \<^verbatim>\<open>measureString\<close> (lines 160 to 163): \<open>w\<close> is the running total, \<open>mt\<close> the
  measurement under the font already selected. It returns the total and the calls made.
\<close>

fun measureLoop :: "(jsstring \<Rightarrow> real) \<Rightarrow> real \<Rightarrow> real \<Rightarrow> jsstring \<Rightarrow> real \<times> canvas_op list" where
  "measureLoop mt k w [] = (w, [])"
| "measureLoop mt k w (ch # rest) =
     (let (w', ops) = measureLoop mt k (w + (mt [ch] + k)) rest
      in (w', MeasureText [ch] # ops))"

text \<open>
  \<^verbatim>\<open>measureString\<close> (line 150). \<^verbatim>\<open>fontSize\<close> is read from the component state; a letter
  spacing of zero is the falsy case of \<^verbatim>\<open>!_letterSpacing\<close>.
\<close>

definition measureString ::
  "platform \<Rightarrow> state \<Rightarrow> jsstring \<Rightarrow> jsstring \<Rightarrow> real \<Rightarrow> real \<times> canvas_op list" where
  "measureString P st fontName content k =
     (let mt = measureText P (fontSize st) fontName;
          m = mt content;
          pre = [SetFont (fontSize st) fontName, MeasureText content]
      in if k = 0 then (m, pre)
         else (let (w, ops) = measureLoop mt k 0 content in (w, pre @ ops)))"

record Metrics =
  wA :: real
  wB :: real
  diff :: real

text \<open>The body of the \<^verbatim>\<open>useMemo\<close> callback of \<^verbatim>\<open>metrics\<close> (lines 349 to 354).\<close>

definition metricsCompute :: "platform \<Rightarrow> state \<Rightarrow> Metrics option" where
  "metricsCompute P st =
     (case fontA st of
        None \<Rightarrow> None
      | Some a \<Rightarrow>
         (case fontB st of
            None \<Rightarrow> None
          | Some b \<Rightarrow>
             if \<not> scratchContext2d P then None
             else (let a_w = fst (measureString P st (name a) (text' st) (letterSpacing st));
                       b_w = fst (measureString P st (name b) (text' st) (letterSpacing st))
                   in Some \<lparr> wA = a_w, wB = b_w, diff = b_w - a_w \<rparr>)))"

text \<open>
  React's \<^verbatim>\<open>useMemo\<close>: the cell keeps the dependency values of the last computation and
  its result; the callback's value \<open>v\<close> is taken when there is no cell yet or a
  dependency differs. React compares with \<^verbatim>\<open>Object.is\<close>: on the strings and numbers of
  the list below that is equality of values, and two font objects that differ in a field
  are different objects.
\<close>

definition useMemo :: "('d \<times> 'v) option \<Rightarrow> 'd \<Rightarrow> 'v \<Rightarrow> 'd \<times> 'v" where
  "useMemo cell deps v =
     (case cell of
        None \<Rightarrow> (deps, v)
      | Some (d, old) \<Rightarrow> if d = deps then (d, old) else (deps, v))"

type_synonym metricsDeps = "LoadedFont option \<times> LoadedFont option \<times> jsstring \<times> real \<times> real"

text \<open>The dependency list of line 355.\<close>

definition metricsDeps :: "state \<Rightarrow> metricsDeps" where
  "metricsDeps st = (fontA st, fontB st, text' st, letterSpacing st, fontSize st)"

definition metrics ::
  "platform \<Rightarrow> (metricsDeps \<times> Metrics option) option \<Rightarrow> state \<Rightarrow> metricsDeps \<times> Metrics option" where
  "metrics P cell st = useMemo cell (metricsDeps st) (metricsCompute P st)"

section \<open>Composition Renderer\<close>

text \<open>\<^verbatim>\<open>humanDevicePixelRatio\<close> (line 101); \<^verbatim>\<open>dpr || 1\<close> replaces a zero ratio by one.\<close>

definition humanDevicePixelRatio :: "platform \<Rightarrow> real" where
  "humanDevicePixelRatio P =
     (let dpr = (if devicePixelRatio P = 0 then 1 else devicePixelRatio P)
      in min 2 (max 1 dpr))"

text \<open>The remainder operator \<^verbatim>\<open>%\<close>: the quotient is truncated towards zero.\<close>

definition jsRem :: "real \<Rightarrow> real \<Rightarrow> real" where
  "jsRem a b = a - b * of_int (if 0 \<le> a / b then \<lfloor>a / b\<rfloor> else \<lceil>a / b\<rceil>)"

text \<open>
  \<^verbatim>\<open>drawChecker\<close> (line 107): the inner loop over \<open>x\<close>, the outer loop over \<open>y\<close>. The
  source calls it with the sizes 16 and 12 only; with a size that is not positive its
  loops would not end, and these functions return no call.
\<close>

function checkerRow :: "real \<Rightarrow> real \<Rightarrow> real \<Rightarrow> real \<Rightarrow> canvas_op list" where
  "checkerRow w sz y x =
     (if x < w \<and> 0 < sz then
        [SetFillStyle (if jsRem (x / sz + y / sz) 2 = 0 then ascii ''#eee'' else ascii ''#fff''),
         FillRect x y sz sz] @ checkerRow w sz y (x + sz)
      else [])"
  by pat_completeness auto
termination
proof (relation "measure (\<lambda>(w, sz, y, x). nat \<lceil>(w - x) / sz\<rceil>)")
  show "wf (measure (\<lambda>(w, sz, y, x). nat \<lceil>(w - x) / sz\<rceil>))"
    by simp
next
  fix w sz y x :: real
  assume a: "x < w \<and> 0 < sz"
  then have "(w - (x + sz)) / sz = (w - x) / sz - 1"
    by (simp add: field_simps)
  moreover from a have "0 < (w - x) / sz"
    by simp
  then have "0 < \<lceil>(w - x) / sz\<rceil>"
    by (simp add: less_ceiling_iff)
  ultimately show "((w, sz, y, x + sz), (w, sz, y, x))
      \<in> measure (\<lambda>(w, sz, y, x). nat \<lceil>(w - x) / sz\<rceil>)"
    by simp
qed

declare checkerRow.simps [simp del]

function drawCheckerFrom :: "real \<Rightarrow> real \<Rightarrow> real \<Rightarrow> real \<Rightarrow> canvas_op list" where
  "drawCheckerFrom w h sz y =
     (if y < h \<and> 0 < sz then checkerRow w sz y 0 @ drawCheckerFrom w h sz (y + sz)
      else [])"
  by pat_completeness auto
termination
proof (relation "measure (\<lambda>(w, h, sz, y). nat \<lceil>(h - y) / sz\<rceil>)")
  show "wf (measure (\<lambda>(w, h, sz, y). nat \<lceil>(h - y) / sz\<rceil>))"
    by simp
next
  fix w h sz y :: real
  assume a: "y < h \<and> 0 < sz"
  then have "(h - (y + sz)) / sz = (h - y) / sz - 1"
    by (simp add: field_simps)
  moreover from a have "0 < (h - y) / sz"
    by simp
  then have "0 < \<lceil>(h - y) / sz\<rceil>"
    by (simp add: less_ceiling_iff)
  ultimately show "((w, h, sz, y + sz), (w, h, sz, y))
      \<in> measure (\<lambda>(w, h, sz, y). nat \<lceil>(h - y) / sz\<rceil>)"
    by simp
qed

declare drawCheckerFrom.simps [simp del]

definition drawChecker :: "real \<Rightarrow> real \<Rightarrow> real \<Rightarrow> canvas_op list" where
  "drawChecker w h sz = drawCheckerFrom w h sz 0"

text \<open>\<^verbatim>\<open>m.width || 0\<close>.\<close>

definition orZero :: "real \<Rightarrow> real" where
  "orZero v = (if v = 0 then 0 else v)"

text \<open>The per-character loop of \<^verbatim>\<open>drawString\<close> (lines 141 to 147); \<open>cx\<close> is the pen position.\<close>

fun drawLoop ::
  "(jsstring \<Rightarrow> real) \<Rightarrow> real \<Rightarrow> bool \<Rightarrow> real \<Rightarrow> real \<Rightarrow> jsstring \<Rightarrow> canvas_op list" where
  "drawLoop mt k strk y cx [] = []"
| "drawLoop mt k strk y cx (ch # rest) =
     (if strk then [StrokeText [ch] cx y] else []) @ [FillText [ch] cx y, MeasureText [ch]]
       @ drawLoop mt k strk y (cx + (orZero (mt [ch]) + k)) rest"

text \<open>\<^verbatim>\<open>drawString\<close> (line 117).\<close>

definition drawString ::
  "platform \<Rightarrow> state \<Rightarrow> jsstring \<Rightarrow> jsstring \<Rightarrow> real \<Rightarrow> real \<Rightarrow> jsstring \<Rightarrow> real \<Rightarrow> bool \<Rightarrow> real
     \<Rightarrow> canvas_op list" where
  "drawString P st fontName content x y color k strk strkWidth =
     [SetFillStyle color, SetStrokeStyle color, SetLineWidth strkWidth,
      SetFont (fontSize st) fontName, SetTextBaseline (ascii ''alphabetic''),
      SetFontKerning (ascii ''normal'')]
     @ (if k = 0 then (if strk then [StrokeText content x y] else []) @ [FillText content x y]
        else drawLoop (measureText P (fontSize st) fontName) k strk y x content)"

text \<open>The canvas element: its backing size and its CSS size in pixels.\<close>

record canvas =
  width :: int
  height :: int
  styleWidth :: "real option"
  styleHeight :: "real option"

text \<open>
  One run of \<^verbatim>\<open>drawCanvas\<close>: the canvas element afterwards, the calls on its context and
  the calls on the scratch context used for measuring.
\<close>

record drawn =
  canvas :: canvas
  ctxCalls :: "canvas_op list"
  tmpCalls :: "canvas_op list"

text \<open>The Russian instruction of line 190, as code points.\<close>

definition placeholderText :: jsstring where
  "placeholderText = [1047, 1072, 1075, 1088, 1091, 1079, 1080, 1090, 1077, 32, 1076, 1074,
     1072, 32, 1096, 1088, 1080, 1092, 1090, 1072, 44, 32, 1095, 1090, 1086, 1073, 1099, 32,
     1085, 1072, 1095, 1072, 1090, 1100, 32, 1089, 1088, 1072, 1074, 1085, 1077, 1085, 1080,
     1077, 46]"

text \<open>Lines 188 to 190.\<close>

definition placeholderCalls :: "canvas_op list" where
  "placeholderCalls =
     [SetFillStyle (ascii ''#999''), SetFont 16 (ascii ''system-ui, sans-serif''),
      FillText placeholderText 24 40]"

text \<open>Lines 194 to 236: the branch of \<^verbatim>\<open>drawCanvas\<close> taken when both fonts are present.\<close>

definition drawBoth ::
  "platform \<Rightarrow> state \<Rightarrow> LoadedFont \<Rightarrow> LoadedFont \<Rightarrow> canvas \<Rightarrow> canvas_op list \<Rightarrow> drawn" where
  "drawBoth P st a b cv0 bg0 =
     (if \<not> scratchContext2d P then \<lparr> canvas = cv0, ctxCalls = bg0, tmpCalls = [] \<rparr>
      else
        (let pad = 32;
             dpr = humanDevicePixelRatio P;
             (a_w, a_ops) = measureString P st (name a) (text' st) (letterSpacing st);
             (b_w, b_ops) = measureString P st (name b) (text' st) (letterSpacing st);
             w = max 320 (of_int \<lceil>max a_w b_w + pad * 2\<rceil>);
             h = max 120 (of_int \<lceil>fontSize st * 1.8 + pad * 2\<rceil>);
             cv1 = \<lparr> width = \<lfloor>w * dpr\<rfloor>, height = \<lfloor>h * dpr\<rfloor>,
                     styleWidth = Some w, styleHeight = Some h \<rparr>;
             bg1 = [SetTransform dpr]
                   @ (if showChecker st then drawChecker w h 16 else [ClearRect 0 0 w h]);
             x = pad;
             y = h - pad - of_int (round ((h - fontSize st) / 4));
             glyphs =
               (if overlayMode st = Difference then
                  drawString P st (name a) (text' st) x y (ascii ''#ffffff'')
                    (letterSpacing st) (stroke st) (strokeWidth st)
                  @ [SetComposite DifferenceOp]
                  @ drawString P st (name b) (text' st) (x + dx st) (y + dy st) (ascii ''#ffffff'')
                      (letterSpacing st) (stroke st) (strokeWidth st)
                  @ [SetComposite SourceOver]
                else
                  drawString P st (name a) (text' st) x y (ascii ''rgba(255,0,0,0.85)'')
                    (letterSpacing st) (stroke st) (strokeWidth st)
                  @ drawString P st (name b) (text' st) (x + dx st) (y + dy st)
                      (ascii ''rgba(0,255,255,0.85)'')
                      (letterSpacing st) (stroke st) (strokeWidth st));
             baseline =
               [SetStrokeStyle (ascii ''rgba(0,0,0,0.15)''), SetLineWidth 1, BeginPath,
                MoveTo 8 (y + 0.5), LineTo (w - 8) (y + 0.5), Stroke];
             labels =
               [SetFont 14 (ascii ''system-ui, sans-serif''), SetFillStyle (ascii ''#111''),
                FillText (ascii ''A: '' @ displayName a) 12 (h - 8),
                FillText (ascii ''B: '' @ displayName b) (w / 2) (h - 8)]
         in \<lparr> canvas = cv1, ctxCalls = bg0 @ bg1 @ glyphs @ baseline @ labels,
              tmpCalls = a_ops @ b_ops \<rparr>))"

text \<open>\<^verbatim>\<open>drawCanvas\<close> (line 167); \<open>cv\<close> is the canvas element before the call.\<close>

definition drawCanvas :: "platform \<Rightarrow> state \<Rightarrow> canvas \<Rightarrow> drawn" where
  "drawCanvas P st cv =
     (if \<not> canvasMounted P then \<lparr> canvas = cv, ctxCalls = [], tmpCalls = [] \<rparr>
      else if \<not> context2d P then \<lparr> canvas = cv, ctxCalls = [], tmpCalls = [] \<rparr>
      else
        (let pad = 32;
             dpr = humanDevicePixelRatio P;
             w = 800;
             h = max 200 (fontSize st * 1.8 + pad * 2);
             cv0 = \<lparr> width = \<lfloor>w * dpr\<rfloor>, height = \<lfloor>h * dpr\<rfloor>,
                     styleWidth = Some w, styleHeight = Some h \<rparr>;
             bg0 = [SetTransform dpr, ClearRect 0 0 w h]
                   @ (if showChecker st then drawChecker w h 16 else []);
             placeholder = \<lparr> canvas = cv0, ctxCalls = bg0 @ placeholderCalls, tmpCalls = [] \<rparr>
         in case fontA st of
              None \<Rightarrow> placeholder
            | Some a \<Rightarrow>
               (case fontB st of
                  None \<Rightarrow> placeholder
                | Some b \<Rightarrow> drawBoth P st a b cv0 bg0)))"

section \<open>Glyph Grid\<close>

text \<open>\<^verbatim>\<open>gridChars\<close> (line 51); the punctuation preset contains U+2014.\<close>

definition gridChars :: "state \<Rightarrow> jsstring" where
  "gridChars st =
     (case gridCharsPreset st of
        Caps \<Rightarrow> ascii ''ABCDEFGHIJKLMNOPQRSTUVWXYZ''
      | Lower \<Rightarrow> ascii ''abcdefghijklmnopqrstuvwxyz''
      | Digits \<Rightarrow> ascii ''0123456789''
      | Punct \<Rightarrow> ascii ''.,;:!?()[]{}-'' @ [8212] @ ascii ''_''
      | Custom \<Rightarrow> customChars st
      | BasicLatin \<Rightarrow>
          ascii ''ABCDEFGHIJKLMNOPQRSTUVWXYZabcdefghijklmnopqrstuvwxyz0123456789'')"

text \<open>
  The \<^verbatim>\<open>GlyphCell\<close> elements that the component renders (lines 524 and 555 to 563), each
  given by its \<^verbatim>\<open>ch\<close>: none while the grid is closed, none while a font is missing (a
  line of text is shown instead), else one per code point of \<^verbatim>\<open>gridChars\<close>.
\<close>

definition renderGrid :: "state \<Rightarrow> jsstring list" where
  "renderGrid st =
     (if \<not> gridOpen st then []
      else if fontA st = None \<or> fontB st = None then []
      else map (\<lambda>ch. [ch]) (gridChars st))"

section \<open>Session State and Messaging\<close>

definition endsWith :: "jsstring \<Rightarrow> jsstring \<Rightarrow> bool" where
  "endsWith s suf = (length suf \<le> length s \<and> drop (length s - length suf) s = suf)"

text \<open>Line 245: \<^verbatim>\<open>/\.(ttf|otf|woff2?|TTF|OTF|WOFF2?)$/.test(f.name)\<close>.\<close>

definition isFontFile :: "File \<Rightarrow> bool" where
  "isFontFile f =
     list_ex (\<lambda>ext. endsWith (fname f) (ascii ext))
       [''.ttf'', ''.otf'', ''.woff'', ''.woff2'', ''.TTF'', ''.OTF'', ''.WOFF'', ''.WOFF2'']"

text \<open>The Russian literals of lines 247 and 261, as code points.\<close>

definition notRecognizedText :: jsstring where
  "notRecognizedText = [1060, 1072, 1081, 1083, 1099, 32, 1085, 1077, 32, 1088, 1072, 1089,
     1087, 1086, 1079, 1085, 1072, 1085, 1099, 32, 1082, 1072, 1082, 32, 1096, 1088, 1080,
     1092, 1090, 1099, 32, 40, 46, 116, 116, 102, 47, 46, 111, 116, 102, 47, 46, 119, 111,
     102, 102, 47, 46, 119, 111, 102, 102, 50, 41]"

definition slotsBusyText :: jsstring where
  "slotsBusyText = [1054, 1073, 1072, 32, 1089, 1083, 1086, 1090, 1072, 32, 1079, 1072, 1085,
     1103, 1090, 1099, 46, 32, 1057, 1085, 1072, 1095, 1072, 1083, 1072, 32, 1086, 1095, 1080,
     1089, 1090, 1080, 1090, 1077, 32, 1086, 1076, 1080, 1085, 32, 1080, 1079, 32, 1096, 1088,
     1080, 1092, 1090, 1086, 1074, 46]"

text \<open>
  Lines 251 to 252 and 258 to 259: load the file under the label and store the font in
  that slot when the load returned one.
\<close>

definition loadInto :: "platform \<Rightarrow> reading \<Rightarrow> File \<Rightarrow> SlotLabel \<Rightarrow> state \<Rightarrow> state" where
  "loadInto P r file label st =
     (let (loaded, msgs) = loadFontFromFile P r file label (messages st);
          st1 = st\<lparr> messages := msgs \<rparr>
      in case loaded of
           None \<Rightarrow> st1
         | Some f \<Rightarrow> (case label of
                        LabelA \<Rightarrow> st1\<lparr> fontA := Some f \<rparr>
                      | LabelB \<Rightarrow> st1\<lparr> fontB := Some f \<rparr>))"

text \<open>
  \<^verbatim>\<open>onDrop\<close> (line 239). \<open>files\<close> is \<^verbatim>\<open>e.dataTransfer?.files || []\<close>. The reading \<open>r1\<close>
  serves the first load or the handler's own message, \<open>r2\<close> the second load. The tests
  \<^verbatim>\<open>!fontA\<close> and \<^verbatim>\<open>!fontB\<close> read the state in which the handler was called.
\<close>

definition onDrop :: "platform \<Rightarrow> reading \<Rightarrow> reading \<Rightarrow> File list \<Rightarrow> state \<Rightarrow> state" where
  "onDrop P r1 r2 files st0 =
     (let st = st0\<lparr> dragCounter := 0, isDragging := False \<rparr>;
          fontFiles = filter isFontFile files
      in case fontFiles of
           [] \<Rightarrow> st\<lparr> messages := pushMessage (msgId r1) notRecognizedText (messages st) \<rparr>
         | f0 # others \<Rightarrow>
            if fontA st0 = None then
              (let st1 = loadInto P r1 f0 LabelA st
               in case others of
                    [] \<Rightarrow> st1
                  | f1 # _ \<Rightarrow> loadInto P r2 f1 LabelB st1)
            else if fontB st0 = None then loadInto P r1 f0 LabelB st
            else st\<lparr> messages := pushMessage (msgId r1) slotsBusyText (messages st) \<rparr>)"

text \<open>\<^verbatim>\<open>onDragEnter\<close> (line 269) and \<^verbatim>\<open>onDragLeave\<close> (line 274).\<close>

definition onDragEnter :: "state \<Rightarrow> state" where
  "onDragEnter st = st\<lparr> dragCounter := dragCounter st + 1, isDragging := True \<rparr>"

definition onDragLeave :: "state \<Rightarrow> state" where
  "onDragLeave st =
     (let st1 = st\<lparr> dragCounter := dragCounter st - 1 \<rparr>
      in if dragCounter st1 \<le> 0 then st1\<lparr> isDragging := False \<rparr> else st1)"

datatype dragEvent = Enter | Leave

text \<open>The handlers applied to a sequence of events, first event first.\<close>

fun dragEvents :: "dragEvent list \<Rightarrow> state \<Rightarrow> state" where
  "dragEvents [] st = st"
| "dragEvents (Enter # es) st = dragEvents es (onDragEnter st)"
| "dragEvents (Leave # es) st = dragEvents es (onDragLeave st)"

text \<open>\<^verbatim>\<open>handleFilePick\<close> (line 280) and \<^verbatim>\<open>reset\<close> (line 298).\<close>

definition handleFilePick :: "platform \<Rightarrow> reading \<Rightarrow> File option \<Rightarrow> SlotLabel \<Rightarrow> state \<Rightarrow> state" where
  "handleFilePick P r file which st =
     (case file of
        None \<Rightarrow> st
      | Some f \<Rightarrow> loadInto P r f which st)"

definition reset :: "SlotLabel \<Rightarrow> state \<Rightarrow> state" where
  "reset which st = (case which of LabelA \<Rightarrow> st\<lparr> fontA := None \<rparr> | LabelB \<Rightarrow> st\<lparr> fontB := None \<rparr>)"

section \<open>Inputs and vocabulary of the properties\<close>

text \<open>Inputs at which the properties below are evaluated, and predicates they are stated with.\<close>

text \<open>A full message log, newest entry first.\<close>

definition log5 :: "Msg list" where
  "log5 = [\<lparr> id' = 5, msg = ascii ''e'' \<rparr>, \<lparr> id' = 4, msg = ascii ''d'' \<rparr>,
           \<lparr> id' = 3, msg = ascii ''c'' \<rparr>, \<lparr> id' = 2, msg = ascii ''b'' \<rparr>,
           \<lparr> id' = 1, msg = ascii ''a'' \<rparr>]"

text \<open>
  A platform in which a run of text is narrower than its characters measured one by one
  (one pixel of kerning per pair), a font whose name starts with \<open>B\<close> is one pixel wider
  per character, and a file without content fails to load.
\<close>

definition demoPlatform :: platform where
  "demoPlatform =
     \<lparr> measureText = (\<lambda>px family s. px * real (length s) / 2 - real (length s - 1)
                        + (if take 1 family = [66] then real (length s) else 0)),
       loadFace = (\<lambda>u f. if bytes f = [] then Inl (ascii ''empty file'') else Inr (length (bytes f))),
       devicePixelRatio = 1, canvasMounted = True, context2d = True, scratchContext2d = True \<rparr>"

text \<open>
  A sequence of drag events in which no leave event arrives when there is no unmatched
  enter event; \<open>d\<close> counts the unmatched enter events so far.
\<close>

fun wellNested :: "nat \<Rightarrow> dragEvent list \<Rightarrow> bool" where
  "wellNested d [] = True"
| "wellNested d (Enter # es) = wellNested (Suc d) es"
| "wellNested 0 (Leave # es) = False"
| "wellNested (Suc d) (Leave # es) = wellNested d es"

text \<open>Dropped files: two fonts, a font file without content (its load fails), a text file.\<close>

definition fontFileA :: File where
  "fontFileA = \<lparr> fname = ascii ''Inter Regular.ttf'', bytes = [0, 1, 0, 0] \<rparr>"

definition fontFileB :: File where
  "fontFileB = \<lparr> fname = ascii ''Inter-Regular.woff2'', bytes = [119, 79, 70, 50, 0] \<rparr>"

definition brokenFile :: File where
  "brokenFile = \<lparr> fname = ascii ''broken.otf'', bytes = [] \<rparr>"

definition textFile :: File where
  "textFile = \<lparr> fname = ascii ''readme.txt'', bytes = [104, 105] \<rparr>"

text \<open>Two readings of the clock, seven milliseconds apart.\<close>

definition clockA :: reading where
  "clockA = \<lparr> now = 1700000000000, msgId = 1700000000000.25 \<rparr>"

definition clockB :: reading where
  "clockB = \<lparr> now = 1700000000007, msgId = 1700000000007.5 \<rparr>"

text \<open>Two fonts as earlier loads left them in the slots.\<close>

definition loadedA :: LoadedFont where
  "loadedA = \<lparr> name = ascii ''A_a_ttf_1'', displayName = ascii ''a.ttf'', face = 1 \<rparr>"

definition loadedB :: LoadedFont where
  "loadedB = \<lparr> name = ascii ''B_b_ttf_2'', displayName = ascii ''b.ttf'', face = 2 \<rparr>"

text \<open>A second file whose name sanitises like that of \<open>fontFileA\<close>, and a second reading
  of the clock in the millisecond of \<open>clockA\<close>.\<close>

definition fontFileA2 :: File where
  "fontFileA2 = \<lparr> fname = ascii ''Inter-Regular.ttf'', bytes = [0, 1, 0, 0, 7] \<rparr>"

definition clockA2 :: reading where
  "clockA2 = \<lparr> now = 1700000000000, msgId = 1700000000000.75 \<rparr>"

text \<open>The number that a string of decimal digits denotes.\<close>

definition fromDecimal :: "jsstring \<Rightarrow> nat" where
  "fromDecimal ds = foldl (\<lambda>a d. 10 * a + (d - 48)) 0 ds"

text \<open>A state with both fonts loaded, and a canvas element as the browser creates it.\<close>

definition bothLoaded :: state where
  "bothLoaded = initial\<lparr> fontA := Some loadedA, fontB := Some loadedB, text' := ascii ''AVA'',
     fontSize := 20, showChecker := False \<rparr>"

definition blankCanvas :: canvas where
  "blankCanvas = \<lparr> width = 300, height = 150, styleWidth = None, styleHeight = None \<rparr>"

text \<open>The calls that paint the background: clearing, and the squares of the checker.\<close>

fun isBackgroundCall :: "canvas_op \<Rightarrow> bool" where
  "isBackgroundCall (SetTransform d) = True"
| "isBackgroundCall (ClearRect x y w h) = True"
| "isBackgroundCall (FillRect x y w h) = True"
| "isBackgroundCall (SetFillStyle c) = True"
| "isBackgroundCall other = False"

text \<open>A text of 41 characters at 21 pixels, and a state with slot B empty.\<close>

definition wideLoaded :: state where
  "wideLoaded = bothLoaded\<lparr> text' := replicate 41 65, fontSize := 21 \<rparr>"

definition onlyA :: state where
  "onlyA = initial\<lparr> fontA := Some loadedA, showChecker := False, gridOpen := True \<rparr>"

chapter \<open>Properties\<close>

section \<open>The message log\<close>

lemma pushMessage_length: "length (pushMessage i m arr) \<le> 5"
  by (simp add: pushMessage_def)

lemma pushMessages_length: "length arr \<le> 5 \<Longrightarrow> length (pushMessages ps arr) \<le> 5"
proof (induction ps arbitrary: arr)
  case Nil
  then show ?case by simp
next
  case (Cons p ps)
  obtain i m where p: "p = (i, m)" by (cases p)
  show ?case unfolding p by (simp add: Cons.IH pushMessage_length)
qed

lemma pushMessage_head: "pushMessage i m arr ! 0 = \<lparr> id' = i, msg = m \<rparr>"
  by (simp add: pushMessage_def)

lemma pushMessages_head:
  "ps \<noteq> [] \<Longrightarrow> pushMessages ps arr ! 0 = \<lparr> id' = fst (last ps), msg = snd (last ps) \<rparr>"
proof (induction ps arbitrary: arr)
  case Nil
  then show ?case by simp
next
  case (Cons p ps)
  obtain i m where p: "p = (i, m)" by (cases p)
  show ?case
  proof (cases "ps = []")
    case True
    then show ?thesis by (simp add: p pushMessage_head)
  next
    case False
    then show ?thesis using Cons.IH [OF False] by (simp add: p)
  qed
qed

lemma pushMessage_full:
  "length arr = 5 \<Longrightarrow> pushMessage i m arr = \<lparr> id' = i, msg = m \<rparr> # butlast arr"
  by (simp add: pushMessage_def butlast_conv_take)

lemma last_of_five: "length arr = 5 \<Longrightarrow> last arr = arr ! 4"
proof -
  assume len: "length arr = 5"
  then have "arr \<noteq> []" by auto
  then show ?thesis using len by (simp add: last_conv_nth)
qed

lemma pushMessage_room:
  "length arr < 5 \<Longrightarrow> pushMessage i m arr = \<lparr> id' = i, msg = m \<rparr> # arr"
  by (simp add: pushMessage_def)

text \<open>
  C4. Starting from a log of at most five entries, after any sequence of pushes the log
  has at most five entries and, when something was pushed, the message pushed last is at
  position 0. For one push: the result has at most five entries, the new message is at
  position 0, a log of five entries loses exactly its last entry (the oldest, at
  position 4), and a shorter log loses nothing.
\<close>

theorem pushMessage_log_capped:
  assumes "length arr \<le> 5"
  shows "length (pushMessages ps arr) \<le> 5
    \<and> (ps \<noteq> [] \<longrightarrow> pushMessages ps arr ! 0 = \<lparr> id' = fst (last ps), msg = snd (last ps) \<rparr>)
    \<and> length (pushMessage i m arr) \<le> 5
    \<and> pushMessage i m arr ! 0 = \<lparr> id' = i, msg = m \<rparr>
    \<and> (length arr = 5 \<longrightarrow>
          pushMessage i m arr = \<lparr> id' = i, msg = m \<rparr> # butlast arr \<and> last arr = arr ! 4)
    \<and> (length arr < 5 \<longrightarrow> pushMessage i m arr = \<lparr> id' = i, msg = m \<rparr> # arr)"
  using assms
  by (simp add: pushMessages_length pushMessages_head pushMessage_length pushMessage_head
      pushMessage_full pushMessage_room last_of_five)

theorem pushMessage_log_capped_witness:
  "length log5 = 5
   \<and> pushMessage 6 (ascii ''f'') log5
       = [\<lparr> id' = 6, msg = ascii ''f'' \<rparr>, \<lparr> id' = 5, msg = ascii ''e'' \<rparr>,
          \<lparr> id' = 4, msg = ascii ''d'' \<rparr>, \<lparr> id' = 3, msg = ascii ''c'' \<rparr>,
          \<lparr> id' = 2, msg = ascii ''b'' \<rparr>]
   \<and> length (pushMessages [(6, ascii ''f''), (7, ascii ''g'')] log5) \<le> 5
   \<and> pushMessages [(6, ascii ''f''), (7, ascii ''g'')] log5 ! 0 = \<lparr> id' = 7, msg = ascii ''g'' \<rparr>"
  using pushMessage_log_capped [of log5 "[(6, ascii ''f''), (7, ascii ''g'')]" 6 "ascii ''f''"]
  by (simp add: log5_def pushMessage_def)

section \<open>Measuring with letter spacing\<close>

lemma measureLoop_total:
  "fst (measureLoop mt k w content) = w + (\<Sum>ch\<leftarrow>content. mt [ch] + k)"
  by (induction content arbitrary: w) (simp_all add: split_beta algebra_simps)

text \<open>
  C1. With a letter spacing \<open>k > 0\<close> the measured width is the sum, over all
  characters of the string, of the width of that character measured alone plus \<open>k\<close>;
  every character contributes \<open>k\<close>, the last one too. Only single characters are
  measured, so no kerning between characters enters the result.
\<close>

theorem measureString_letterSpacing:
  assumes "0 < k"
  shows "fst (measureString P st fontName content k)
           = (\<Sum>ch\<leftarrow>content. measureText P (fontSize st) fontName [ch] + k)
       \<and> fst (measureString P st fontName content k)
           = (\<Sum>ch\<leftarrow>content. measureText P (fontSize st) fontName [ch]) + k * real (length content)"
  using assms
  by (simp add: measureString_def Let_def split_beta measureLoop_total sum_list_addf sum_list_triv)

theorem measureString_letterSpacing_witness:
  "(0::real) < 2
   \<and> fst (measureString demoPlatform (initial\<lparr> fontSize := 20 \<rparr>) (ascii ''A_f_1'') (ascii ''AVA'') 2) = 36
   \<and> measureText demoPlatform 20 (ascii ''A_f_1'') (ascii ''AVA'') = 28"
  using measureString_letterSpacing [of 2 demoPlatform "initial\<lparr> fontSize := 20 \<rparr>" "ascii ''A_f_1''" "ascii ''AVA''"]
  by (simp add: demoPlatform_def ascii_def initial_def)

section \<open>The drag counter and the highlight\<close>

lemma onDragEnter_active: "isDragging (onDragEnter st)"
  by (simp add: onDragEnter_def)

lemma onDragLeave_active:
  "(0 < dragCounter st \<Longrightarrow> isDragging st) \<Longrightarrow> 0 < dragCounter (onDragLeave st)
     \<Longrightarrow> isDragging (onDragLeave st)"
  by (simp add: onDragLeave_def Let_def split: if_splits)

lemma dragEvents_positive_active:
  "(0 < dragCounter st \<Longrightarrow> isDragging st) \<Longrightarrow> 0 < dragCounter (dragEvents es st)
     \<Longrightarrow> isDragging (dragEvents es st)"
proof (induction es arbitrary: st)
  case Nil
  then show ?case by simp
next
  case (Cons e es)
  show ?case
  proof (cases e)
    case Enter
    have "isDragging (dragEvents es (onDragEnter st))"
      using Cons.prems(2) by (intro Cons.IH) (simp_all add: onDragEnter_active Enter)
    then show ?thesis by (simp add: Enter)
  next
    case Leave
    have "isDragging (dragEvents es (onDragLeave st))"
    proof (rule Cons.IH)
      show "0 < dragCounter (onDragLeave st) \<Longrightarrow> isDragging (onDragLeave st)"
        using Cons.prems(1) by (rule onDragLeave_active)
      show "0 < dragCounter (dragEvents es (onDragLeave st))"
        using Cons.prems(2) by (simp add: Leave)
    qed
    then show ?thesis by (simp add: Leave)
  qed
qed

lemma dragEvents_counter:
  "dragCounter (dragEvents es st)
     = dragCounter st + int (count_list es Enter) - int (count_list es Leave)"
  by (induction es st rule: dragEvents.induct)
     (simp_all add: onDragEnter_def onDragLeave_def Let_def)

lemma dragEvents_wellNested:
  "wellNested d es \<Longrightarrow> dragCounter st = int d \<Longrightarrow> isDragging st = (0 < d)
     \<Longrightarrow> isDragging (dragEvents es st) = (0 < dragCounter (dragEvents es st))"
proof (induction d es arbitrary: st rule: wellNested.induct)
  case (1 d)
  then show ?case by simp
next
  case (2 d es)
  have "isDragging (dragEvents es (onDragEnter st))
          = (0 < dragCounter (dragEvents es (onDragEnter st)))"
    using 2 by (intro "2.IH") (simp_all add: onDragEnter_def)
  then show ?case by simp
next
  case (3 es)
  then show ?case by simp
next
  case (4 d es)
  have "isDragging (dragEvents es (onDragLeave st))
          = (0 < dragCounter (dragEvents es (onDragLeave st)))"
    using 4 by (intro "4.IH") (simp_all add: onDragLeave_def Let_def)
  then show ?case by simp
qed

lemma wellNested_enters: "wellNested d (replicate n Enter @ es) = wellNested (d + n) es"
  by (induction n arbitrary: d) simp_all

lemma wellNested_leaves: "wellNested (d + n) (replicate n Leave @ es) = wellNested d es"
  by (induction n arbitrary: d) simp_all

lemma wellNested_round_trip: "wellNested 0 (replicate n Enter @ replicate n Leave)"
  using wellNested_leaves [of 0 n "[]"] by (simp add: wellNested_enters)

lemma count_replicate: "count_list (replicate n x) y = (if x = y then n else 0)"
  by (induction n) auto

lemma initial_drag: "dragCounter initial = 0" "isDragging initial = False"
  by (simp_all add: initial_def)

text \<open>
  C7 (as amended). From the initial state, after any sequence of enter and leave events:
  the counter is the number of enter events minus the number of leave events; a positive
  counter implies an active highlight, so any excess of enter over leave events keeps it
  active; when no leave event arrived without an unmatched enter event before it, the
  highlight is active exactly when the counter is positive; and \<open>n\<close> enter events
  followed by \<open>n\<close> leave events leave the highlight inactive.
\<close>

theorem dragEvents_highlight:
  "(0 < dragCounter (dragEvents es initial) \<longrightarrow> isDragging (dragEvents es initial))
   \<and> dragCounter (dragEvents es initial) = int (count_list es Enter) - int (count_list es Leave)
   \<and> (count_list es Leave < count_list es Enter \<longrightarrow> isDragging (dragEvents es initial))
   \<and> (wellNested 0 es \<longrightarrow>
        isDragging (dragEvents es initial) = (0 < dragCounter (dragEvents es initial)))
   \<and> \<not> isDragging (dragEvents (replicate n Enter @ replicate n Leave) initial)"
proof -
  have pos: "0 < dragCounter (dragEvents es initial) \<Longrightarrow> isDragging (dragEvents es initial)"
    for es
    by (rule dragEvents_positive_active) (simp_all add: initial_drag)
  have cnt: "dragCounter (dragEvents es initial)
      = int (count_list es Enter) - int (count_list es Leave)" for es
    by (simp add: dragEvents_counter initial_drag)
  have nested: "wellNested 0 es \<Longrightarrow>
      isDragging (dragEvents es initial) = (0 < dragCounter (dragEvents es initial))" for es
    by (rule dragEvents_wellNested) (simp_all add: initial_drag)
  have "\<not> isDragging (dragEvents (replicate n Enter @ replicate n Leave) initial)"
    using nested [OF wellNested_round_trip, of n] by (simp add: cnt count_replicate)
  moreover have "count_list es Leave < count_list es Enter \<Longrightarrow> isDragging (dragEvents es initial)"
    using pos [of es] by (simp add: cnt)
  ultimately show ?thesis
    using pos [of es] cnt [of es] nested [of es] by blast
qed

theorem dragEvents_highlight_witness:
  "wellNested 0 [Enter, Enter, Leave]
   \<and> count_list [Enter, Enter, Leave] Leave < count_list [Enter, Enter, Leave] Enter
   \<and> dragCounter (dragEvents [Enter, Enter, Leave] initial) = 1
   \<and> isDragging (dragEvents [Enter, Enter, Leave] initial)
   \<and> \<not> isDragging (dragEvents (replicate 2 Enter @ replicate 2 Leave) initial)"
  using dragEvents_highlight [of "[Enter, Enter, Leave]" 2]
  by simp

text \<open>
  C7 as stated fails: after a leave event and then an enter event the counter is back at
  0, not greater than 0, and the highlight is active.
\<close>

theorem dragEvents_highlight_counterexample:
  "isDragging (dragEvents [Leave, Enter] initial)
   \<and> dragCounter (dragEvents [Leave, Enter] initial) = 0"
  by (simp add: initial_def onDragEnter_def onDragLeave_def)

section \<open>Dropping files\<close>

lemma loadInto_ok:
  "loadFace P (uniqueName label (fname f) (now r)) f = Inr c \<Longrightarrow>
     loadInto P r f label st =
       (case label of
          LabelA \<Rightarrow> st\<lparr> fontA := Some \<lparr> name = uniqueName label (fname f) (now r),
                                         displayName = fname f, face = c \<rparr> \<rparr>
        | LabelB \<Rightarrow> st\<lparr> fontB := Some \<lparr> name = uniqueName label (fname f) (now r),
                                         displayName = fname f, face = c \<rparr> \<rparr>)"
  by (cases label) (simp_all add: loadInto_def loadFontFromFile_def Let_def)

lemma loadInto_failed:
  "loadFace P (uniqueName label (fname f) (now r)) f = Inl e \<Longrightarrow>
     loadInto P r f label st =
       st\<lparr> messages := pushMessage (msgId r) (loadFailedPrefix @ fname f @ ascii '': '' @ e)
                         (messages st) \<rparr>"
  by (simp add: loadInto_def loadFontFromFile_def Let_def)

lemma loadInto_fontA_B: "fontA (loadInto P r f LabelB st) = fontA st"
  by (simp add: loadInto_def loadFontFromFile_def Let_def split: sum.splits)

lemma loadInto_fontB_A: "fontB (loadInto P r f LabelA st) = fontB st"
  by (simp add: loadInto_def loadFontFromFile_def Let_def split: sum.splits)

lemma isFontFile_inputs:
  "isFontFile fontFileA" "isFontFile fontFileB" "isFontFile brokenFile" "\<not> isFontFile textFile"
  by (simp_all add: isFontFile_def fontFileA_def fontFileB_def brokenFile_def textFile_def
      endsWith_def ascii_def)

text \<open>
  C10. A drop with at least two recognised font files while slot A is empty: the second
  file is loaded under label B whatever the outcome of the first load and, when its load
  succeeds, fills slot B; when the load of the first file fails, slot A stays empty and
  the failure is reported in the message log.
\<close>

theorem onDrop_second_after_failure:
  assumes "fontA st = None"
    and "filter isFontFile files = f0 # f1 # others"
    and "loadFace P (uniqueName LabelB (fname f1) (now r2)) f1 = Inr c"
  shows "fontB (onDrop P r1 r2 files st)
           = Some \<lparr> name = uniqueName LabelB (fname f1) (now r2), displayName = fname f1, face = c \<rparr>
       \<and> (\<forall>e. loadFace P (uniqueName LabelA (fname f0) (now r1)) f0 = Inl e \<longrightarrow>
             fontA (onDrop P r1 r2 files st) = None
           \<and> messages (onDrop P r1 r2 files st)
               = pushMessage (msgId r1) (loadFailedPrefix @ fname f0 @ ascii '': '' @ e) (messages st))"
  using assms
  by (auto simp add: onDrop_def Let_def loadInto_ok loadInto_failed loadInto_fontA_B)

theorem onDrop_second_after_failure_witness:
  "fontA initial = None
   \<and> filter isFontFile [brokenFile, textFile, fontFileB] = [brokenFile, fontFileB]
   \<and> loadFace demoPlatform (uniqueName LabelA (fname brokenFile) (now clockA)) brokenFile
        = Inl (ascii ''empty file'')
   \<and> fontA (onDrop demoPlatform clockA clockB [brokenFile, textFile, fontFileB] initial) = None
   \<and> fontB (onDrop demoPlatform clockA clockB [brokenFile, textFile, fontFileB] initial)
        = Some \<lparr> name = uniqueName LabelB (fname fontFileB) (now clockB),
                  displayName = fname fontFileB, face = 5 \<rparr>"
proof -
  have a: "fontA initial = None"
    by (simp add: initial_def)
  have b: "filter isFontFile [brokenFile, textFile, fontFileB] = [brokenFile, fontFileB]"
    by (simp add: isFontFile_inputs)
  have c: "loadFace demoPlatform (uniqueName LabelB (fname fontFileB) (now clockB)) fontFileB = Inr 5"
    by (simp add: demoPlatform_def fontFileB_def)
  have d: "loadFace demoPlatform (uniqueName LabelA (fname brokenFile) (now clockA)) brokenFile
             = Inl (ascii ''empty file'')"
    by (simp add: demoPlatform_def brokenFile_def)
  show ?thesis
    using onDrop_second_after_failure [OF a b c, of clockA] a b d by simp
qed

text \<open>
  C3 (as amended). A drop whose recognised files are \<open>f0 # others\<close>. With slot A empty
  and the load of \<open>f0\<close> succeeding, \<open>f0\<close> fills slot A; slot B is untouched when there is no
  second recognised file, and is filled by the second recognised file when that file's load
  succeeds. With slot A occupied, slot B empty and the load of \<open>f0\<close> succeeding, \<open>f0\<close> fills
  slot B and slot A is untouched. With both slots occupied neither slot changes and the
  log receives exactly one push, of the slots-occupied message.
\<close>

theorem onDrop_fill_policy:
  assumes "filter isFontFile files = f0 # others"
  shows
    "(fontA st = None \<and> loadFace P (uniqueName LabelA (fname f0) (now r1)) f0 = Inr ca \<longrightarrow>
        fontA (onDrop P r1 r2 files st)
          = Some \<lparr> name = uniqueName LabelA (fname f0) (now r1), displayName = fname f0, face = ca \<rparr>
      \<and> (others = [] \<longrightarrow> fontB (onDrop P r1 r2 files st) = fontB st)
      \<and> (others = f1 # rest \<and> loadFace P (uniqueName LabelB (fname f1) (now r2)) f1 = Inr cb \<longrightarrow>
            fontB (onDrop P r1 r2 files st)
              = Some \<lparr> name = uniqueName LabelB (fname f1) (now r2), displayName = fname f1, face = cb \<rparr>))
   \<and> (fontA st \<noteq> None \<and> fontB st = None
        \<and> loadFace P (uniqueName LabelB (fname f0) (now r1)) f0 = Inr cb \<longrightarrow>
        fontB (onDrop P r1 r2 files st)
          = Some \<lparr> name = uniqueName LabelB (fname f0) (now r1), displayName = fname f0, face = cb \<rparr>
      \<and> fontA (onDrop P r1 r2 files st) = fontA st)
   \<and> (fontA st \<noteq> None \<and> fontB st \<noteq> None \<longrightarrow>
        fontA (onDrop P r1 r2 files st) = fontA st
      \<and> fontB (onDrop P r1 r2 files st) = fontB st
      \<and> messages (onDrop P r1 r2 files st) = pushMessage (msgId r1) slotsBusyText (messages st))"
  using assms
  by (auto simp add: onDrop_def Let_def loadInto_ok loadInto_failed loadInto_fontA_B
      split: list.splits)

lemma demo_loads:
  "loadFace demoPlatform u fontFileA = Inr 4" "loadFace demoPlatform u fontFileB = Inr 5"
  "loadFace demoPlatform u brokenFile = Inl (ascii ''empty file'')"
  by (simp_all add: demoPlatform_def fontFileA_def fontFileB_def brokenFile_def)

theorem onDrop_fill_policy_witness:
  "fontA (onDrop demoPlatform clockA clockB [fontFileA, fontFileB] initial)
      = Some \<lparr> name = uniqueName LabelA (fname fontFileA) (now clockA),
                displayName = fname fontFileA, face = 4 \<rparr>
   \<and> fontB (onDrop demoPlatform clockA clockB [fontFileA, fontFileB] initial)
      = Some \<lparr> name = uniqueName LabelB (fname fontFileB) (now clockB),
                displayName = fname fontFileB, face = 5 \<rparr>
   \<and> fontB (onDrop demoPlatform clockA clockB [fontFileA] initial) = None
   \<and> fontB (onDrop demoPlatform clockA clockB [fontFileB] (initial\<lparr> fontA := Some loadedA \<rparr>))
      = Some \<lparr> name = uniqueName LabelB (fname fontFileB) (now clockA),
                displayName = fname fontFileB, face = 5 \<rparr>
   \<and> fontA (onDrop demoPlatform clockA clockB [fontFileB] (initial\<lparr> fontA := Some loadedA \<rparr>))
      = Some loadedA
   \<and> fontA (onDrop demoPlatform clockA clockB [fontFileA]
              (initial\<lparr> fontA := Some loadedA, fontB := Some loadedB \<rparr>)) = Some loadedA
   \<and> fontB (onDrop demoPlatform clockA clockB [fontFileA]
              (initial\<lparr> fontA := Some loadedA, fontB := Some loadedB \<rparr>)) = Some loadedB
   \<and> messages (onDrop demoPlatform clockA clockB [fontFileA]
                 (initial\<lparr> fontA := Some loadedA, fontB := Some loadedB \<rparr>))
      = [\<lparr> id' = msgId clockA, msg = slotsBusyText \<rparr>]"
proof -
  have two: "filter isFontFile [fontFileA, fontFileB] = fontFileA # [fontFileB]"
    and oneA: "filter isFontFile [fontFileA] = fontFileA # []"
    and oneB: "filter isFontFile [fontFileB] = fontFileB # []"
    by (simp_all add: isFontFile_inputs)
  have empty: "fontA initial = None" "fontB initial = None" "messages initial = []"
    by (simp_all add: initial_def)
  show ?thesis
    using onDrop_fill_policy [OF two, of initial demoPlatform clockA 4 clockB fontFileB "[]" 5]
      onDrop_fill_policy [OF oneA, of initial demoPlatform clockA 4 clockB]
      onDrop_fill_policy [OF oneB, of "initial\<lparr> fontA := Some loadedA \<rparr>" demoPlatform clockA _ clockB _ _ 5]
      onDrop_fill_policy [OF oneA, of "initial\<lparr> fontA := Some loadedA, fontB := Some loadedB \<rparr>"
        demoPlatform clockA _ clockB]
    by (simp add: empty demo_loads pushMessage_def)
qed

text \<open>
  C3 as stated fails: the only dropped file is recognised by its extension, slot A is
  empty, the load fails, and slot A is still empty after the drop.
\<close>

theorem onDrop_fill_policy_counterexample:
  "filter isFontFile [brokenFile] = [brokenFile]
   \<and> fontA initial = None
   \<and> fontA (onDrop demoPlatform clockA clockB [brokenFile] initial) = None"
  by (simp add: isFontFile_inputs onDrop_def Let_def loadInto_failed demo_loads initial_def)

text \<open>
  C8 (as amended). A dropped file whose name has no recognised extension never reaches a
  slot: the slots after the drop are those after dropping the recognised files alone.
  When no dropped file is recognised, neither slot changes and the log receives exactly
  one push, of the not-recognised message. When some dropped file is recognised, the
  whole state after the drop is the one after dropping the recognised files alone: the
  other files are ignored and nothing is reported about them.
\<close>

theorem onDrop_unrecognized:
  "(filter isFontFile files = [] \<longrightarrow>
       fontA (onDrop P r1 r2 files st) = fontA st
     \<and> fontB (onDrop P r1 r2 files st) = fontB st
     \<and> messages (onDrop P r1 r2 files st) = pushMessage (msgId r1) notRecognizedText (messages st))
   \<and> (filter isFontFile files \<noteq> [] \<longrightarrow>
       onDrop P r1 r2 files st = onDrop P r1 r2 (filter isFontFile files) st)
   \<and> fontA (onDrop P r1 r2 files st) = fontA (onDrop P r1 r2 (filter isFontFile files) st)
   \<and> fontB (onDrop P r1 r2 files st) = fontB (onDrop P r1 r2 (filter isFontFile files) st)"
  by (simp add: onDrop_def Let_def)

theorem onDrop_unrecognized_witness:
  "filter isFontFile [textFile] = []
   \<and> fontA (onDrop demoPlatform clockA clockB [textFile] initial) = None
   \<and> fontB (onDrop demoPlatform clockA clockB [textFile] initial) = None
   \<and> messages (onDrop demoPlatform clockA clockB [textFile] initial)
        = [\<lparr> id' = msgId clockA, msg = notRecognizedText \<rparr>]
   \<and> filter isFontFile [textFile, fontFileA] = [fontFileA]
   \<and> onDrop demoPlatform clockA clockB [textFile, fontFileA] initial
        = onDrop demoPlatform clockA clockB [fontFileA] initial"
  using onDrop_unrecognized [of "[textFile]" demoPlatform clockA clockB initial]
    onDrop_unrecognized [of "[textFile, fontFileA]" demoPlatform clockA clockB initial]
  by (simp add: isFontFile_inputs initial_def pushMessage_def)

text \<open>
  C8 as stated fails: a font file and a text file are dropped together on the initial
  state; the text file is ignored, the log stays as it was, and the font file is accepted
  into slot A.
\<close>

theorem onDrop_unrecognized_counterexample:
  "\<not> isFontFile textFile
   \<and> messages (onDrop demoPlatform clockA clockB [fontFileA, textFile] initial) = messages initial
   \<and> fontA (onDrop demoPlatform clockA clockB [fontFileA, textFile] initial)
        = Some \<lparr> name = uniqueName LabelA (fname fontFileA) (now clockA),
                  displayName = fname fontFileA, face = 4 \<rparr>"
  by (simp add: isFontFile_inputs onDrop_def Let_def loadInto_ok demo_loads initial_def)

section \<open>Generated font names\<close>

lemma fromDecimal_decimal: "fromDecimal (decimal n) = n"
proof (induction n rule: decimal.induct)
  case (1 n)
  show ?case
  proof (cases "n < 10")
    case True
    then show ?thesis by (subst decimal.simps) (simp add: fromDecimal_def)
  next
    case False
    then have "fromDecimal (decimal (n div 10)) = n div 10" by (rule 1)
    with False show ?thesis by (subst decimal.simps) (simp add: fromDecimal_def)
  qed
qed

lemma decimal_inj: "decimal m = decimal n \<Longrightarrow> m = n"
proof -
  assume "decimal m = decimal n"
  then have "fromDecimal (decimal m) = fromDecimal (decimal n)"
    by (rule arg_cong)
  then show "m = n"
    by (simp only: fromDecimal_decimal)
qed

lemma decimal_digits: "d \<in> set (decimal n) \<Longrightarrow> 48 \<le> d \<and> d \<le> 57"
proof (induction n rule: decimal.induct)
  case (1 n)
  show ?case
  proof (cases "n < 10")
    case True
    with 1(2) show ?thesis by (subst (asm) decimal.simps) simp
  next
    case False
    with 1(2) have "d \<in> set (decimal (n div 10)) \<or> d = 48 + n mod 10"
      by (subst (asm) decimal.simps) auto
    then show ?thesis
    proof
      assume "d \<in> set (decimal (n div 10))"
      with False show ?thesis by (rule 1(1))
    next
      assume d: "d = 48 + n mod 10"
      have "n mod 10 < 10" by simp
      with d show ?thesis by linarith
    qed
  qed
qed

lemma decimal_no_underscore: "95 \<notin> set (decimal n)"
  using decimal_digits [of 95 n] by auto

lemma split_at_first:
  "c \<notin> set a \<Longrightarrow> c \<notin> set a' \<Longrightarrow> a @ c # p = a' @ c # p' \<Longrightarrow> a = a' \<and> p = p'"
proof (induction a arbitrary: a')
  case Nil
  then show ?case by (cases a') auto
next
  case (Cons x a)
  then show ?case by (cases a') auto
qed

lemma split_at_last:
  assumes "xs @ c # ys = xs' @ c # ys'" and "c \<notin> set ys" and "c \<notin> set ys'"
  shows "xs = xs' \<and> ys = ys'"
proof -
  from assms(1) have "rev (xs @ c # ys) = rev (xs' @ c # ys')"
    by (rule arg_cong)
  then have e: "rev ys @ c # rev xs = rev ys' @ c # rev xs'"
    by (simp only: rev_append rev.simps append_assoc append_Cons append_Nil)
  have a: "c \<notin> set (rev ys)" and b: "c \<notin> set (rev ys')"
    using assms(2,3) by simp_all
  have "rev ys = rev ys' \<and> rev xs = rev xs'"
    using a b e by (rule split_at_first)
  then show ?thesis
    by (simp only: rev_is_rev_conv)
qed

lemma labelText_inj: "labelText l1 = labelText l2 \<Longrightarrow> l1 = l2"
  by (cases l1; cases l2) simp_all

lemma uniqueName_eq_iff:
  "(uniqueName l1 n1 t1 = uniqueName l2 n2 t2) = (l1 = l2 \<and> sanitize n1 = sanitize n2 \<and> t1 = t2)"
proof
  assume eq: "uniqueName l1 n1 t1 = uniqueName l2 n2 t2"
  have l: "l1 = l2"
    using eq by (cases l1; cases l2) (simp_all add: uniqueName_def)
  with eq have "sanitize n1 @ 95 # decimal t1 = sanitize n2 @ 95 # decimal t2"
    by (simp add: uniqueName_def)
  then have "sanitize n1 = sanitize n2 \<and> decimal t1 = decimal t2"
    by (rule split_at_last) (rule decimal_no_underscore)+
  with l show "l1 = l2 \<and> sanitize n1 = sanitize n2 \<and> t1 = t2"
    by (simp add: decimal_inj)
next
  assume "l1 = l2 \<and> sanitize n1 = sanitize n2 \<and> t1 = t2"
  then show "uniqueName l1 n1 t1 = uniqueName l2 n2 t2"
    by (simp add: uniqueName_def)
qed

lemma loadFontFromFile_name:
  "loadFontFromFile P r f l ms = (Some g, ms') \<Longrightarrow> name g = uniqueName l (fname f) (now r)"
  by (auto simp add: loadFontFromFile_def Let_def split: sum.splits)

lemma decimal_clock: "decimal 1700000000000 = ascii ''1700000000000''"
  by (simp add: decimal.simps ascii_def)

lemma sanitize_inputs:
  "sanitize (fname fontFileA) = ascii ''Inter_Regular_ttf''"
  "sanitize (fname fontFileA2) = ascii ''Inter_Regular_ttf''"
  by (simp_all add: fontFileA_def fontFileA2_def ascii_def wordChar_def)

lemma uniqueName_inputs:
  "uniqueName LabelA (fname fontFileA) 1700000000000 = ascii ''A_Inter_Regular_ttf_1700000000000''"
  "uniqueName LabelA (fname fontFileA2) 1700000000000 = ascii ''A_Inter_Regular_ttf_1700000000000''"
  by (simp_all add: uniqueName_def sanitize_inputs decimal_clock) (simp_all add: ascii_def)

text \<open>
  C9 (as amended). Two successful loads generate the same name exactly when they have
  the same slot label, file names with the same sanitised form and the same value of
  \<^verbatim>\<open>Date.now()\<close>; so the names are distinct whenever the two loads differ in slot
  label, in sanitised file name or in the millisecond of the load.
\<close>

theorem uniqueName_distinct:
  assumes "loadFontFromFile P r1 f1 l1 ms1 = (Some g1, ms1')"
    and "loadFontFromFile P r2 f2 l2 ms2 = (Some g2, ms2')"
  shows "(name g1 = name g2)
           = (l1 = l2 \<and> sanitize (fname f1) = sanitize (fname f2) \<and> now r1 = now r2)"
  using assms by (simp add: loadFontFromFile_name uniqueName_eq_iff)

lemma decimal_clockB: "decimal 1700000000007 = ascii ''1700000000007''"
  by (simp add: decimal.simps ascii_def)

theorem uniqueName_distinct_witness:
  "loadFontFromFile demoPlatform clockA fontFileA LabelA []
      = (Some \<lparr> name = ascii ''A_Inter_Regular_ttf_1700000000000'',
                 displayName = fname fontFileA, face = 4 \<rparr>, [])
   \<and> loadFontFromFile demoPlatform clockB fontFileA LabelA []
      = (Some \<lparr> name = ascii ''A_Inter_Regular_ttf_1700000000007'',
                 displayName = fname fontFileA, face = 4 \<rparr>, [])
   \<and> now clockA \<noteq> now clockB
   \<and> ascii ''A_Inter_Regular_ttf_1700000000000'' \<noteq> ascii ''A_Inter_Regular_ttf_1700000000007''"
proof -
  have t: "now clockA = 1700000000000" "now clockB = 1700000000007"
    by (simp_all add: clockA_def clockB_def)
  have l: "loadFace demoPlatform u fontFileA = Inr 4" for u
    by (simp add: demoPlatform_def fontFileA_def)
  have nB: "uniqueName LabelA (fname fontFileA) 1700000000007
              = ascii ''A_Inter_Regular_ttf_1700000000007''"
    by (simp add: uniqueName_def sanitize_inputs decimal_clockB) (simp add: ascii_def)
  have first: "loadFontFromFile demoPlatform clockA fontFileA LabelA []
      = (Some \<lparr> name = ascii ''A_Inter_Regular_ttf_1700000000000'',
                 displayName = fname fontFileA, face = 4 \<rparr>, [])"
    by (simp add: loadFontFromFile_def Let_def t l uniqueName_inputs)
  have second: "loadFontFromFile demoPlatform clockB fontFileA LabelA []
      = (Some \<lparr> name = ascii ''A_Inter_Regular_ttf_1700000000007'',
                 displayName = fname fontFileA, face = 4 \<rparr>, [])"
    by (simp add: loadFontFromFile_def Let_def t l nB)
  show ?thesis
    using uniqueName_distinct [OF first second] first second by (simp add: t)
qed

text \<open>
  C9 as stated fails: loads for slot A in the same millisecond generate one and the same
  name, for two different files whose names differ only in a non-word character, and for
  the same file loaded twice.
\<close>

theorem uniqueName_distinct_counterexample:
  "map_option name (fst (loadFontFromFile demoPlatform clockA fontFileA LabelA []))
      = Some (ascii ''A_Inter_Regular_ttf_1700000000000'')
   \<and> map_option name (fst (loadFontFromFile demoPlatform clockA2 fontFileA2 LabelA []))
      = Some (ascii ''A_Inter_Regular_ttf_1700000000000'')
   \<and> map_option name (fst (loadFontFromFile demoPlatform clockA2 fontFileA LabelA []))
      = Some (ascii ''A_Inter_Regular_ttf_1700000000000'')"
proof -
  have t: "now clockA = 1700000000000" "now clockA2 = 1700000000000"
    by (simp_all add: clockA_def clockA2_def)
  have l: "loadFace demoPlatform u fontFileA = Inr 4" "loadFace demoPlatform u fontFileA2 = Inr 5" for u
    by (simp_all add: demoPlatform_def fontFileA_def fontFileA2_def)
  show ?thesis
    by (simp add: loadFontFromFile_def Let_def t l uniqueName_inputs)
qed

section \<open>The width metrics\<close>

lemma measureString_fontSize:
  "fontSize st = fontSize st0 \<Longrightarrow> measureString P st f c k = measureString P st0 f c k"
  by (simp add: measureString_def)

lemma metricsCompute_deps:
  "metricsDeps st = metricsDeps st0 \<Longrightarrow> metricsCompute P st = metricsCompute P st0"
proof -
  assume "metricsDeps st = metricsDeps st0"
  then have same: "fontA st = fontA st0" "fontB st = fontB st0" "text' st = text' st0"
    "letterSpacing st = letterSpacing st0" "fontSize st = fontSize st0"
    by (simp_all add: metricsDeps_def)
  have "measureString P st f c k = measureString P st0 f c k" for f c k
    using same(5) by (rule measureString_fontSize)
  then show ?thesis
    by (simp add: metricsCompute_def same(1-4) Let_def split: option.splits)
qed

lemma metricsDeps_changed:
  "text' st \<noteq> text' st0 \<or> letterSpacing st \<noteq> letterSpacing st0 \<or> fontSize st \<noteq> fontSize st0
     \<or> fontA st \<noteq> fontA st0 \<or> fontB st \<noteq> fontB st0 \<Longrightarrow> metricsDeps st0 \<noteq> metricsDeps st"
  by (auto simp add: metricsDeps_def)

text \<open>
  C2. A metrics record, whenever there is one, has \<open>diff = wB - wA\<close>; with both fonts
  loaded (and a scratch context to measure with) the record exists, its two widths are the
  values of \<^verbatim>\<open>measureString\<close> for the two fonts and \<open>diff\<close> is their difference, nothing
  being rounded before the subtraction. The memoised value is recomputed whenever the
  text, the letter spacing, the font size or either font differs from the state of the
  last computation, it is computed when there is no earlier value, and a value that
  agreed with its state keeps agreeing: it is always the metrics of the current state.
\<close>

theorem metrics_diff_exact:
  "(metricsCompute P st = Some m \<longrightarrow> diff m = wB m - wA m)
   \<and> (fontA st = Some a \<and> fontB st = Some b \<and> scratchContext2d P \<longrightarrow>
        metricsCompute P st
          = Some \<lparr> wA = fst (measureString P st (name a) (text' st) (letterSpacing st)),
                    wB = fst (measureString P st (name b) (text' st) (letterSpacing st)),
                    diff = fst (measureString P st (name b) (text' st) (letterSpacing st))
                           - fst (measureString P st (name a) (text' st) (letterSpacing st)) \<rparr>)
   \<and> (text' st \<noteq> text' st0 \<or> letterSpacing st \<noteq> letterSpacing st0
        \<or> fontSize st \<noteq> fontSize st0 \<or> fontA st \<noteq> fontA st0 \<or> fontB st \<noteq> fontB st0 \<longrightarrow>
        metrics P (Some (metricsDeps st0, old)) st = (metricsDeps st, metricsCompute P st))
   \<and> snd (metrics P None st) = metricsCompute P st
   \<and> (old = metricsCompute P st0 \<longrightarrow>
        snd (metrics P (Some (metricsDeps st0, old)) st) = metricsCompute P st)"
proof -
  have exact: "metricsCompute P st = Some m \<Longrightarrow> diff m = wB m - wA m"
    by (auto simp add: metricsCompute_def Let_def split: option.splits if_splits)
  have both: "fontA st = Some a \<and> fontB st = Some b \<and> scratchContext2d P \<Longrightarrow>
        metricsCompute P st
          = Some \<lparr> wA = fst (measureString P st (name a) (text' st) (letterSpacing st)),
                    wB = fst (measureString P st (name b) (text' st) (letterSpacing st)),
                    diff = fst (measureString P st (name b) (text' st) (letterSpacing st))
                           - fst (measureString P st (name a) (text' st) (letterSpacing st)) \<rparr>"
    by (simp add: metricsCompute_def Let_def)
  have changed: "text' st \<noteq> text' st0 \<or> letterSpacing st \<noteq> letterSpacing st0
        \<or> fontSize st \<noteq> fontSize st0 \<or> fontA st \<noteq> fontA st0 \<or> fontB st \<noteq> fontB st0 \<Longrightarrow>
        metrics P (Some (metricsDeps st0, old)) st = (metricsDeps st, metricsCompute P st)"
    using metricsDeps_changed [of st st0] by (simp add: metrics_def useMemo_def)
  have fresh: "snd (metrics P None st) = metricsCompute P st"
    by (simp add: metrics_def useMemo_def)
  have valid: "old = metricsCompute P st0 \<Longrightarrow>
        snd (metrics P (Some (metricsDeps st0, old)) st) = metricsCompute P st"
    using metricsCompute_deps [of st st0 P] by (simp add: metrics_def useMemo_def)
  from exact both changed fresh valid show ?thesis
    by blast
qed

lemma bothLoaded_fields:
  "fontA bothLoaded = Some loadedA" "fontB bothLoaded = Some loadedB"
  "text' bothLoaded = ascii ''AVA''" "fontSize bothLoaded = 20" "letterSpacing bothLoaded = 0"
  "showChecker bothLoaded = False"
  by (simp_all add: bothLoaded_def initial_def)

lemma measure_bothLoaded:
  "measureString demoPlatform bothLoaded (name loadedA) (ascii ''AVA'') 0
     = (28, [SetFont 20 (name loadedA), MeasureText (ascii ''AVA'')])"
  "measureString demoPlatform bothLoaded (name loadedB) (ascii ''AVA'') 0
     = (31, [SetFont 20 (name loadedB), MeasureText (ascii ''AVA'')])"
  by (simp_all add: measureString_def Let_def bothLoaded_fields demoPlatform_def loadedA_def
      loadedB_def ascii_def)

theorem metrics_diff_exact_witness:
  "metricsCompute demoPlatform bothLoaded = Some \<lparr> wA = 28, wB = 31, diff = 3 \<rparr>
   \<and> text' bothLoaded \<noteq> text' (bothLoaded\<lparr> text' := ascii ''AV'' \<rparr>)
   \<and> metrics demoPlatform
        (Some (metricsDeps (bothLoaded\<lparr> text' := ascii ''AV'' \<rparr>),
               metricsCompute demoPlatform (bothLoaded\<lparr> text' := ascii ''AV'' \<rparr>))) bothLoaded
       = (metricsDeps bothLoaded, Some \<lparr> wA = 28, wB = 31, diff = 3 \<rparr>)"
proof -
  have ctx: "scratchContext2d demoPlatform"
    by (simp add: demoPlatform_def)
  have ne: "text' bothLoaded \<noteq> text' (bothLoaded\<lparr> text' := ascii ''AV'' \<rparr>)"
    by (simp add: bothLoaded_fields ascii_def)
  show ?thesis
    using metrics_diff_exact [of demoPlatform bothLoaded "\<lparr> wA = 28, wB = 31, diff = 3 \<rparr>" loadedA loadedB
        "bothLoaded\<lparr> text' := ascii ''AV'' \<rparr>"
        "metricsCompute demoPlatform (bothLoaded\<lparr> text' := ascii ''AV'' \<rparr>)"]
      ctx ne
    by (simp add: bothLoaded_fields measure_bothLoaded)
qed

section \<open>Drawing without two fonts\<close>

lemma checkerRow_background: "list_all isBackgroundCall (checkerRow w sz y x)"
proof (induction w sz y x rule: checkerRow.induct)
  case (1 w sz y x)
  show ?case
  proof (cases "x < w \<and> 0 < sz")
    case True
    with 1 show ?thesis by (subst checkerRow.simps) simp
  next
    case False
    then show ?thesis by (subst checkerRow.simps) auto
  qed
qed

lemma drawCheckerFrom_background: "list_all isBackgroundCall (drawCheckerFrom w h sz y)"
proof (induction w h sz y rule: drawCheckerFrom.induct)
  case (1 w h sz y)
  show ?case
  proof (cases "y < h \<and> 0 < sz")
    case True
    with 1 show ?thesis by (subst drawCheckerFrom.simps) (simp add: checkerRow_background)
  next
    case False
    then show ?thesis by (subst drawCheckerFrom.simps) auto
  qed
qed

lemma drawChecker_background: "list_all isBackgroundCall (drawChecker w h sz)"
  by (simp add: drawChecker_def drawCheckerFrom_background)

lemma drawCanvas_missing_font:
  assumes "fontA st = None \<or> fontB st = None"
  shows "drawCanvas P st cv =
     (if canvasMounted P \<and> context2d P then
        \<lparr> canvas = \<lparr> width = \<lfloor>800 * humanDevicePixelRatio P\<rfloor>,
                      height = \<lfloor>max 200 (fontSize st * 1.8 + 64) * humanDevicePixelRatio P\<rfloor>,
                      styleWidth = Some 800,
                      styleHeight = Some (max 200 (fontSize st * 1.8 + 64)) \<rparr>,
          ctxCalls = [SetTransform (humanDevicePixelRatio P),
                      ClearRect 0 0 800 (max 200 (fontSize st * 1.8 + 64))]
                     @ (if showChecker st
                        then drawChecker 800 (max 200 (fontSize st * 1.8 + 64)) 16 else [])
                     @ placeholderCalls,
          tmpCalls = [] \<rparr>
      else \<lparr> canvas = cv, ctxCalls = [], tmpCalls = [] \<rparr>)"
  using assms by (auto simp add: drawCanvas_def Let_def split: option.splits)

text \<open>
  C5. In a state where slot A or slot B holds no font: \<^verbatim>\<open>drawCanvas\<close> makes no call on a
  scratch context, so it measures nothing; when the canvas and its context exist, the calls
  it makes are the transform, the clearing of the surface, the checker when it is enabled
  (all of them background calls) and then the three calls that write the fixed
  instruction at (24, 40), with no glyph run and no change of the composite operation;
  when they do not exist it makes no call; no metrics are computed; and the grid renders no
  cell, whether it is open or not and whatever the preset and the custom characters are.
\<close>

theorem drawCanvas_placeholder_only:
  assumes "fontA st = None \<or> fontB st = None"
  shows "tmpCalls (drawCanvas P st cv) = []
    \<and> (canvasMounted P \<and> context2d P \<longrightarrow>
          ctxCalls (drawCanvas P st cv)
            = [SetTransform (humanDevicePixelRatio P),
               ClearRect 0 0 800 (max 200 (fontSize st * 1.8 + 64))]
              @ (if showChecker st
                 then drawChecker 800 (max 200 (fontSize st * 1.8 + 64)) 16 else [])
              @ [SetFillStyle (ascii ''#999''), SetFont 16 (ascii ''system-ui, sans-serif''),
                 FillText placeholderText 24 40])
    \<and> (\<not> (canvasMounted P \<and> context2d P) \<longrightarrow> ctxCalls (drawCanvas P st cv) = [])
    \<and> list_all isBackgroundCall
          ([SetTransform (humanDevicePixelRatio P),
            ClearRect 0 0 800 (max 200 (fontSize st * 1.8 + 64))]
           @ (if showChecker st
              then drawChecker 800 (max 200 (fontSize st * 1.8 + 64)) 16 else []))
    \<and> metricsCompute P st = None
    \<and> renderGrid (st\<lparr> gridOpen := opn, gridCharsPreset := preset, customChars := chars \<rparr>) = []"
  using assms
  by (auto simp add: drawCanvas_missing_font [OF assms] placeholderCalls_def
      drawChecker_background renderGrid_def metricsCompute_def split: option.splits)

theorem drawCanvas_placeholder_only_witness:
  "(fontA onlyA = None \<or> fontB onlyA = None)
   \<and> tmpCalls (drawCanvas demoPlatform onlyA blankCanvas) = []
   \<and> ctxCalls (drawCanvas demoPlatform onlyA blankCanvas)
       = [SetTransform 1, ClearRect 0 0 800 280, SetFillStyle (ascii ''#999''),
          SetFont 16 (ascii ''system-ui, sans-serif''), FillText placeholderText 24 40]
   \<and> metricsCompute demoPlatform onlyA = None
   \<and> renderGrid (onlyA\<lparr> gridOpen := True, gridCharsPreset := Digits, customChars := ascii ''xyz'' \<rparr>) = []"
proof -
  have f: "fontA onlyA = None \<or> fontB onlyA = None" "showChecker onlyA = False"
    "fontSize onlyA = 120"
    by (simp_all add: onlyA_def initial_def)
  have p: "canvasMounted demoPlatform" "context2d demoPlatform"
    "humanDevicePixelRatio demoPlatform = 1"
    by (simp_all add: demoPlatform_def humanDevicePixelRatio_def)
  show ?thesis
    using drawCanvas_placeholder_only [OF f(1), where P = demoPlatform and cv = blankCanvas
        and opn = True and preset = Digits and chars = "ascii ''xyz''"]
    by (simp add: f p)
qed

section \<open>The size of the main surface\<close>

lemma drawCanvas_styleWidth:
  assumes "fontA st = Some a" and "fontB st = Some b"
    and "canvasMounted P" and "context2d P" and "scratchContext2d P"
  shows "canvas (drawCanvas P st cv) =
    (let w = max 320 (of_int \<lceil>max (fst (measureString P st (name a) (text' st) (letterSpacing st)))
                                  (fst (measureString P st (name b) (text' st) (letterSpacing st)))
                              + 32 * 2\<rceil>);
         h = max 120 (of_int \<lceil>fontSize st * 1.8 + 32 * 2\<rceil>)
     in \<lparr> width = \<lfloor>w * humanDevicePixelRatio P\<rfloor>, height = \<lfloor>h * humanDevicePixelRatio P\<rfloor>,
          styleWidth = Some w, styleHeight = Some h \<rparr>)"
  using assms by (simp add: drawCanvas_def drawBoth_def Let_def split_beta)

text \<open>
  C6 (as amended). With both fonts loaded (and the canvas, its context and a scratch
  context present) the CSS width that \<^verbatim>\<open>drawCanvas\<close> gives the main surface is
  \<open>max 320 \<lceil>max wA wB + 2 * 32\<rceil>\<close>, where \<open>wA\<close> and \<open>wB\<close> are the values of
  \<^verbatim>\<open>measureString\<close> for the comparison text in the two fonts; it is \<open>max wA wB + 2 * 32\<close>
  itself when the larger width is a whole number of at least 256.
\<close>

theorem drawCanvas_logical_width:
  assumes "fontA st = Some a" and "fontB st = Some b"
    and "canvasMounted P" and "context2d P" and "scratchContext2d P"
  shows "styleWidth (canvas (drawCanvas P st cv))
      = Some (max 320
          (of_int \<lceil>max (fst (measureString P st (name a) (text' st) (letterSpacing st)))
                      (fst (measureString P st (name b) (text' st) (letterSpacing st)))
                  + 2 * 32\<rceil>))
    \<and> (256 \<le> max (fst (measureString P st (name a) (text' st) (letterSpacing st)))
                  (fst (measureString P st (name b) (text' st) (letterSpacing st)))
        \<and> max (fst (measureString P st (name a) (text' st) (letterSpacing st)))
               (fst (measureString P st (name b) (text' st) (letterSpacing st))) \<in> \<int> \<longrightarrow>
        styleWidth (canvas (drawCanvas P st cv))
          = Some (max (fst (measureString P st (name a) (text' st) (letterSpacing st)))
                      (fst (measureString P st (name b) (text' st) (letterSpacing st))) + 2 * 32))"
proof -
  let ?m = "max (fst (measureString P st (name a) (text' st) (letterSpacing st)))
                (fst (measureString P st (name b) (text' st) (letterSpacing st)))"
  have w: "styleWidth (canvas (drawCanvas P st cv)) = Some (max 320 (of_int \<lceil>?m + 2 * 32\<rceil>))"
    using drawCanvas_styleWidth [OF assms, of cv] by (simp add: Let_def)
  have "max 320 (of_int \<lceil>?m + 2 * 32\<rceil>) = ?m + 2 * 32" if "256 \<le> ?m" and "?m \<in> \<int>"
  proof -
    from that(2) obtain z :: int where z: "?m = of_int z"
      by (auto elim: Ints_cases)
    have "of_int \<lceil>?m + 2 * 32\<rceil> = ?m + 2 * 32"
      unfolding z by simp
    with that(1) show ?thesis by simp
  qed
  with w show ?thesis by simp
qed

lemma wideLoaded_fields:
  "fontA wideLoaded = Some loadedA" "fontB wideLoaded = Some loadedB"
  "text' wideLoaded = replicate 41 65" "fontSize wideLoaded = 21" "letterSpacing wideLoaded = 0"
  by (simp_all add: wideLoaded_def bothLoaded_def initial_def)

lemma measure_wideLoaded:
  "fst (measureString demoPlatform wideLoaded (name loadedA) (replicate 41 65) 0) = 781 / 2"
  "fst (measureString demoPlatform wideLoaded (name loadedB) (replicate 41 65) 0) = 863 / 2"
  by (simp_all add: measureString_def Let_def wideLoaded_fields demoPlatform_def loadedA_def
      loadedB_def ascii_def)

lemma demoPlatform_contexts:
  "canvasMounted demoPlatform" "context2d demoPlatform" "scratchContext2d demoPlatform"
  by (simp_all add: demoPlatform_def)

theorem drawCanvas_logical_width_witness:
  "styleWidth (canvas (drawCanvas demoPlatform wideLoaded blankCanvas)) = Some 496
   \<and> styleWidth (canvas (drawCanvas demoPlatform bothLoaded blankCanvas)) = Some 320"
  using drawCanvas_logical_width [OF wideLoaded_fields(1,2) demoPlatform_contexts, of blankCanvas]
    drawCanvas_logical_width [OF bothLoaded_fields(1,2) demoPlatform_contexts, of blankCanvas]
  by (simp add: wideLoaded_fields bothLoaded_fields measure_wideLoaded measure_bothLoaded)

text \<open>
  C6 as stated fails in two ways: for a short text the width is the minimum 320, not
  \<open>95 = 31 + 64\<close>; for a text whose width is not a whole number the sum is rounded up,
  to 496 instead of 495.5.
\<close>

theorem drawCanvas_logical_width_counterexample:
  "styleWidth (canvas (drawCanvas demoPlatform bothLoaded blankCanvas)) = Some 320
   \<and> max (fst (measureString demoPlatform bothLoaded (name loadedA) (text' bothLoaded)
                 (letterSpacing bothLoaded)))
          (fst (measureString demoPlatform bothLoaded (name loadedB) (text' bothLoaded)
                 (letterSpacing bothLoaded))) + 2 * 32 = 95
   \<and> styleWidth (canvas (drawCanvas demoPlatform wideLoaded blankCanvas)) = Some 496
   \<and> max (fst (measureString demoPlatform wideLoaded (name loadedA) (text' wideLoaded)
                 (letterSpacing wideLoaded)))
          (fst (measureString demoPlatform wideLoaded (name loadedB) (text' wideLoaded)
                 (letterSpacing wideLoaded))) + 2 * 32 = 991 / 2"
  using drawCanvas_styleWidth [OF wideLoaded_fields(1,2) demoPlatform_contexts, of blankCanvas]
    drawCanvas_styleWidth [OF bothLoaded_fields(1,2) demoPlatform_contexts, of blankCanvas]
  by (simp add: wideLoaded_fields bothLoaded_fields measure_wideLoaded measure_bothLoaded Let_def)

section \<open>The model at work\<close>

text \<open>
  The checker on a surface of two squares, the sanitising of a file name with runs of
  non-word characters, and a string drawn character by character with a letter spacing
  of two pixels.
\<close>

lemma drawChecker_two_squares:
  "drawChecker 32 16 16
     = [SetFillStyle (ascii ''#eee''), FillRect 0 0 16 16,
        SetFillStyle (ascii ''#fff''), FillRect 16 0 16 16]"
  by (simp add: drawChecker_def drawCheckerFrom.simps checkerRow.simps jsRem_def)

lemma sanitize_runs: "sanitize (ascii ''a  b--c.ttf'') = ascii ''a_b_c_ttf''"
  by (simp add: ascii_def wordChar_def)

lemma drawString_spaced:
  "drawString demoPlatform bothLoaded (name loadedA) (ascii ''AV'') 32 50 (ascii ''#ffffff'') 2 False 1
     = [SetFillStyle (ascii ''#ffffff''), SetStrokeStyle (ascii ''#ffffff''), SetLineWidth 1,
        SetFont 20 (name loadedA), SetTextBaseline (ascii ''alphabetic''),
        SetFontKerning (ascii ''normal''),
        FillText (ascii ''A'') 32 50, MeasureText (ascii ''A''),
        FillText (ascii ''V'') 44 50, MeasureText (ascii ''V'')]"
  by (simp add: drawString_def bothLoaded_fields demoPlatform_def orZero_def loadedA_def ascii_def)

end
